theory Spec2Isabelle
  imports Main "HOL-Library.Word"
begin

section \<open>Go values and errors\<close>

text \<open>
  The cache package passes values of Go's empty interface to the Redis connection and gets
  such values back. \<open>val\<close> is the tagged union of the dynamic types that occur: the
  argument types the package forwards, the reply types of the redigo connection
  (\<open>int64\<close>, \<open>[]byte\<close>, \<open>string\<close>, \<open>[]interface{}\<close>, \<open>nil\<close>,
  \<open>redis.Error\<close>) and the structured values handed to the JSON and hash operations.
  Go strings and byte slices are byte sequences, here \<open>string\<close>. Go's \<open>int\<close> is
  taken to be 64 bits wide, so that the conversion of an \<open>int64\<close> reply to \<open>int\<close>
  keeps its value; integer values that are only passed through are mathematical integers.
\<close>

datatype val =
    VNil
  | VInt int
  | VString string
  | VBytes string
  | VArray "val list"
  | VStruct string "(string \<times> val) list"
  | VError string
  | VChan

text \<open>
  Errors: the sentinel \<open>redis.ErrNil\<close>, an error reply of the server
  (\<open>redis.Error\<close>), a transport error with its \<open>Timeout()\<close> flag, any other error
  of a library the package calls (by its message), and an error built with
  \<open>fmt.Errorf\<close>.
\<close>

datatype error =
    ErrNil
  | RedisError string
  | NetError string bool
  | LibError string
  | Errorf string

fun error_string :: "error \<Rightarrow> string" where
  "error_string ErrNil = ''redigo: nil returned''"
| "error_string (RedisError m) = m"
| "error_string (NetError m t) = m"
| "error_string (LibError m) = m"
| "error_string (Errorf m) = m"

text \<open>The verb \<open>%s\<close> of \<open>fmt\<close> applied to an error value that may be nil.\<close>

definition fmt_s :: "error option \<Rightarrow> string" where
  "fmt_s err = (case err of None \<Rightarrow> ''%!s(<nil>)'' | Some e \<Rightarrow> error_string e)"

text \<open>The verb \<open>%T\<close> of \<open>fmt\<close>: the dynamic type of a value.\<close>

fun fmt_T :: "val \<Rightarrow> string" where
  "fmt_T VNil = ''<nil>''"
| "fmt_T (VInt n) = ''int64''"
| "fmt_T (VString s) = ''string''"
| "fmt_T (VBytes b) = ''[]uint8''"
| "fmt_T (VArray xs) = ''[]interface {}''"
| "fmt_T (VStruct name fs) = name"
| "fmt_T (VError m) = ''redis.Error''"
| "fmt_T VChan = ''chan int''"

text \<open>\<open>fmt.Errorf(ErrorFailedConnect, connection, err)\<close>.\<close>

definition ErrorFailedConnect :: "string \<Rightarrow> error option \<Rightarrow> error" where
  "ErrorFailedConnect conn err =
     Errorf (''Failed to connect to redis '' @ conn @ ''. Error: '' @ fmt_s err)"

section \<open>Configuration, client and reply\<close>

record RedisConfig =
  Connection :: string
  Password :: string
  Timeout :: int
  MaxIdle :: int
  MaxActive :: int

text \<open>
  The dial closure of the pool captures the endpoint and the timeout; it is kept as the
  data it captures. \<open>time.Duration\<close> is a 64-bit integer counting nanoseconds.
\<close>

record Dialer =
  dial_network :: string
  dial_address :: string
  dial_connect_timeout :: "64 word"

record Pool =
  Pool_MaxIdle :: int
  Pool_MaxActive :: int
  Pool_IdleTimeout :: "64 word"
  Pool_Wait :: bool
  Pool_Dial :: Dialer

record Redis =
  connection :: string
  timeout :: "64 word"
  pool :: Pool

record Reply =
  result :: val
  error :: "error option"

section \<open>The collaborators the package calls\<close>

text \<open>
  A connection handed out by the pool is either a live connection or redigo's error
  connection, which answers every command with the error of the failed dial.
\<close>

datatype conn = ActiveConn | ErrorConn error

text \<open>What the package does to the pool and its connections, in order.\<close>

datatype event =
    PoolGet conn
  | ConnDo conn "64 word" string "val list"
  | ConnClose conn

text \<open>
  The behaviour of everything outside the package is a parameter: which connection the
  pool hands out and what a live connection answers (both may depend on all that happened
  before), the JSON codec, redigo's flattening and scanning of structured values, and the
  parsers of \<open>strconv\<close>. A 64-bit float is kept as its bit pattern. \<open>json_Unmarshal\<close>
  and \<open>ScanStruct\<close> take the target object and return it as they leave it.
\<close>

record env =
  pool_Get :: "Pool \<Rightarrow> event list \<Rightarrow> conn"
  conn_Do :: "event list \<Rightarrow> 64 word \<Rightarrow> string \<Rightarrow> val list \<Rightarrow> val \<times> error option"
  json_Marshal :: "val \<Rightarrow> string \<times> error option"
  json_Unmarshal :: "string \<Rightarrow> val \<Rightarrow> val \<times> error option"
  Args_AddFlat :: "val \<Rightarrow> val list"
  ScanStruct :: "val list \<Rightarrow> val \<Rightarrow> val \<times> error option"
  ParseInt :: "string \<Rightarrow> int \<times> error option"
  ParseFloat :: "string \<Rightarrow> 64 word \<times> error option"
  ParseBool :: "string \<Rightarrow> bool \<times> error option"

text \<open>
  The state the methods of the client run in: the \<open>Redis\<close> object their receiver
  points to, and the trace of pool and connection calls made so far.
\<close>

record heap =
  client :: Redis
  trace :: "event list"

text \<open>
  \<open>DoWithTimeout\<close> on a connection: the error connection returns its error, a live
  connection returns what the server answers.
\<close>

definition DoWithTimeout ::
  "env \<Rightarrow> conn \<Rightarrow> 64 word \<Rightarrow> string \<Rightarrow> val list \<Rightarrow> event list \<Rightarrow> (val \<times> error option) \<times> event list" where
  "DoWithTimeout e c t command args tr =
     (case c of
        ErrorConn err \<Rightarrow> ((VNil, Some err), tr @ [ConnDo c t command args])
      | ActiveConn \<Rightarrow> (conn_Do e tr t command args, tr @ [ConnDo c t command args]))"

definition Close :: "conn \<Rightarrow> event list \<Rightarrow> event list" where
  "Close c tr = tr @ [ConnClose c]"

text \<open>The commands sent, read off a trace: name and arguments of every \<open>ConnDo\<close>.\<close>

fun commands :: "event list \<Rightarrow> (string \<times> val list) list" where
  "commands [] = []"
| "commands (ConnDo c t command args # tr) = (command, args) # commands tr"
| "commands (PoolGet c # tr) = commands tr"
| "commands (ConnClose c # tr) = commands tr"

text \<open>
  The live connections handed out and not yet closed, counted along the trace of a pool.
  An error connection holds no slot of the pool.
\<close>

fun in_use :: "event list \<Rightarrow> int" where
  "in_use [] = 0"
| "in_use (PoolGet ActiveConn # tr) = in_use tr + 1"
| "in_use (PoolGet (ErrorConn er) # tr) = in_use tr"
| "in_use (ConnClose ActiveConn # tr) = in_use tr - 1"
| "in_use (ConnClose (ErrorConn er) # tr) = in_use tr"
| "in_use (ConnDo c t command args # tr) = in_use tr"


section \<open>cache.go: connecting and the generic command\<close>

definition ConnectRedis ::
  "env \<Rightarrow> RedisConfig \<Rightarrow> event list \<Rightarrow> (Redis option \<times> error option) \<times> event list" where
  "ConnectRedis e config tr =
     (let timeout' = word_of_int (Timeout config) * 1000000000;
          pool' = \<lparr>Pool_MaxIdle = MaxIdle config, Pool_MaxActive = MaxActive config,
                   Pool_IdleTimeout = timeout', Pool_Wait = True,
                   Pool_Dial = \<lparr>dial_network = ''tcp'', dial_address = Connection config,
                                 dial_connect_timeout = timeout'\<rparr>\<rparr>;
          conn = pool_Get e pool' tr;
          tr1 = tr @ [PoolGet conn];
          ((reply, err), tr2) = DoWithTimeout e conn timeout' ''PING'' [] tr1
      in case err of
           Some er \<Rightarrow> ((None, Some (ErrorFailedConnect (Connection config) (Some er))), tr2)
         | None \<Rightarrow>
             ((Some \<lparr>connection = Connection config, timeout = timeout', pool = pool'\<rparr>, None),
              tr2))"

text \<open>
  \<open>getConnection\<close> and \<open>Do\<close> as they run once \<open>r.pool.Get()\<close> has returned:
  \<open>pool_Get\<close> is the connection it hands out. The wait that can come before is in
  \<open>getConnection_call\<close> and \<open>Do_call\<close> below.
\<close>

definition getConnection :: "env \<Rightarrow> heap \<Rightarrow> conn \<times> heap" where
  "getConnection e h =
     (let c = pool_Get e (pool (client h)) (trace h)
      in (c, h\<lparr>trace := trace h @ [PoolGet c]\<rparr>))"

text \<open>
  \<open>Do\<close>: the context argument is never read and is left out. The deferred
  \<open>conn.Close()\<close> runs after the command, whatever it returned.
\<close>

definition Do :: "env \<Rightarrow> string \<Rightarrow> val list \<Rightarrow> heap \<Rightarrow> Reply \<times> heap" where
  "Do e command args h =
     (let (conn, h1) = getConnection e h;
          ((result', err), tr2) =
             DoWithTimeout e conn (timeout (client h1)) command args (trace h1);
          tr3 = Close conn tr2
      in (\<lparr>result = result', error = err\<rparr>, h1\<lparr>trace := tr3\<rparr>))"



text \<open>
  \<open>Ping\<close> and \<open>Exists\<close> decode the reply of \<open>Do\<close>; the decoders follow in
  the next section, so the two methods are defined after them.
\<close>

definition TTL :: "env \<Rightarrow> string \<Rightarrow> heap \<Rightarrow> Reply \<times> heap" where
  "TTL e key h = Do e ''TTL'' [VString key] h"

definition Expire :: "env \<Rightarrow> string \<Rightarrow> int \<Rightarrow> heap \<Rightarrow> Reply \<times> heap" where
  "Expire e key expire h = Do e ''EXPIRE'' [VString key, VInt expire] h"

definition Incr :: "env \<Rightarrow> string \<Rightarrow> heap \<Rightarrow> Reply \<times> heap" where
  "Incr e key h = Do e ''INCR'' [VString key] h"

definition IncrBy :: "env \<Rightarrow> string \<Rightarrow> int \<Rightarrow> heap \<Rightarrow> Reply \<times> heap" where
  "IncrBy e key incr h = Do e ''INCRBY'' [VString key, VInt incr] h"

definition Decr :: "env \<Rightarrow> string \<Rightarrow> heap \<Rightarrow> Reply \<times> heap" where
  "Decr e key h = Do e ''DECR'' [VString key] h"

definition DecrBy :: "env \<Rightarrow> string \<Rightarrow> int \<Rightarrow> heap \<Rightarrow> Reply \<times> heap" where
  "DecrBy e key decr h = Do e ''DECRBY'' [VString key, VInt decr] h"

definition Get :: "env \<Rightarrow> string \<Rightarrow> heap \<Rightarrow> Reply \<times> heap" where
  "Get e key h = Do e ''GET'' [VString key] h"

text \<open>
  \<open>Set\<close> and \<open>SetWithExpire\<close> drop the reply of their \<open>Expire\<close> call and
  return the reply of the \<open>SET\<close>.
\<close>

definition Set :: "env \<Rightarrow> string \<Rightarrow> val \<Rightarrow> heap \<Rightarrow> Reply \<times> heap" where
  "Set e key v h =
     (let (result', h1) = Do e ''SET'' [VString key, v] h;
          (dropped, h2) = Expire e key (15 * 60) h1
      in (result', h2))"

definition SetWithExpire :: "env \<Rightarrow> string \<Rightarrow> int \<Rightarrow> val \<Rightarrow> heap \<Rightarrow> Reply \<times> heap" where
  "SetWithExpire e key expire v h =
     (let (result', h1) = Do e ''SET'' [VString key, v] h;
          (dropped, h2) = Expire e key expire h1
      in (result', h2))"

definition SetNoExpire :: "env \<Rightarrow> string \<Rightarrow> val \<Rightarrow> heap \<Rightarrow> Reply \<times> heap" where
  "SetNoExpire e key v h = Do e ''SET'' [VString key, v] h"

definition Del :: "env \<Rightarrow> string \<Rightarrow> heap \<Rightarrow> Reply \<times> heap" where
  "Del e key h = Do e ''DEL'' [VString key] h"

definition SetStruct :: "env \<Rightarrow> string \<Rightarrow> val \<Rightarrow> heap \<Rightarrow> Reply \<times> heap" where
  "SetStruct e key v h =
     (let (jsonValue, err) = json_Marshal e v
      in case err of
           Some er \<Rightarrow> (\<lparr>result = VNil, error = Some er\<rparr>, h)
         | None \<Rightarrow> Set e key (VBytes jsonValue) h)"

definition SetStructWithExpire ::
  "env \<Rightarrow> string \<Rightarrow> int \<Rightarrow> val \<Rightarrow> heap \<Rightarrow> Reply \<times> heap" where
  "SetStructWithExpire e key expire v h =
     (let (jsonValue, err) = json_Marshal e v
      in case err of
           Some er \<Rightarrow> (\<lparr>result = VNil, error = Some er\<rparr>, h)
         | None \<Rightarrow> SetWithExpire e key expire (VBytes jsonValue) h)"

definition SetStructNoExpire :: "env \<Rightarrow> string \<Rightarrow> val \<Rightarrow> heap \<Rightarrow> Reply \<times> heap" where
  "SetStructNoExpire e key v h =
     (let (jsonValue, err) = json_Marshal e v
      in case err of
           Some er \<Rightarrow> (\<lparr>result = VNil, error = Some er\<rparr>, h)
         | None \<Rightarrow> SetNoExpire e key (VBytes jsonValue) h)"

text \<open>
  \<open>stringToInterface\<close>: the loop appends the values, one by one, to a slice that
  starts with the key.
\<close>

fun append_each :: "val list \<Rightarrow> string list \<Rightarrow> val list" where
  "append_each args [] = args"
| "append_each args (v # vs) = append_each (args @ [VString v]) vs"

definition stringToInterface :: "string \<Rightarrow> string list \<Rightarrow> val list" where
  "stringToInterface key vs = append_each ([] @ [VString key]) vs"

definition SAdd :: "env \<Rightarrow> string \<Rightarrow> string list \<Rightarrow> heap \<Rightarrow> Reply \<times> heap" where
  "SAdd e key vs h =
     (let args = stringToInterface key vs;
          (result', h1) = Do e ''SADD'' args h;
          (dropped, h2) = Expire e key (15 * 60) h1
      in (result', h2))"

definition SAddWithExpire ::
  "env \<Rightarrow> string \<Rightarrow> int \<Rightarrow> string list \<Rightarrow> heap \<Rightarrow> Reply \<times> heap" where
  "SAddWithExpire e key expire vs h =
     (let args = stringToInterface key vs in Do e ''SADD'' args h)"

definition SAddNoExpire :: "env \<Rightarrow> string \<Rightarrow> string list \<Rightarrow> heap \<Rightarrow> Reply \<times> heap" where
  "SAddNoExpire e key vs h =
     (let args = stringToInterface key vs in Do e ''SADD'' args h)"

definition SRem :: "env \<Rightarrow> string \<Rightarrow> string list \<Rightarrow> heap \<Rightarrow> Reply \<times> heap" where
  "SRem e key vs h =
     (let args = stringToInterface key vs in Do e ''SREM'' args h)"

definition SIsMember :: "env \<Rightarrow> string \<Rightarrow> string \<Rightarrow> heap \<Rightarrow> Reply \<times> heap" where
  "SIsMember e key v h = Do e ''SISMEMBER'' [VString key, VString v] h"

definition SMembers :: "env \<Rightarrow> string \<Rightarrow> heap \<Rightarrow> Reply \<times> heap" where
  "SMembers e key h = Do e ''SMEMBERS'' [VString key] h"

definition SCard :: "env \<Rightarrow> string \<Rightarrow> heap \<Rightarrow> Reply \<times> heap" where
  "SCard e key h = Do e ''SCARD'' [VString key] h"

definition HSet :: "env \<Rightarrow> string \<Rightarrow> val \<Rightarrow> heap \<Rightarrow> Reply \<times> heap" where
  "HSet e name obj h =
     (let (result', h1) = Do e ''HMSET'' (([] @ [VString name]) @ Args_AddFlat e obj) h;
          (dropped, h2) = Expire e name (15 * 60) h1
      in (result', h2))"

definition HSetWithExpire :: "env \<Rightarrow> string \<Rightarrow> int \<Rightarrow> val \<Rightarrow> heap \<Rightarrow> Reply \<times> heap" where
  "HSetWithExpire e name expire obj h =
     (let (result', h1) = Do e ''HMSET'' (([] @ [VString name]) @ Args_AddFlat e obj) h;
          (dropped, h2) = Expire e name expire h1
      in (result', h2))"

definition HSetNoExpire :: "env \<Rightarrow> string \<Rightarrow> val \<Rightarrow> heap \<Rightarrow> Reply \<times> heap" where
  "HSetNoExpire e name obj h =
     Do e ''HMSET'' (([] @ [VString name]) @ Args_AddFlat e obj) h"

definition HGet :: "env \<Rightarrow> string \<Rightarrow> string \<Rightarrow> heap \<Rightarrow> Reply \<times> heap" where
  "HGet e name key h = Do e ''HGET'' (([] @ [VString name]) @ [VString key]) h"

definition HGetAll :: "env \<Rightarrow> string \<Rightarrow> heap \<Rightarrow> Reply \<times> heap" where
  "HGetAll e name h = Do e ''HGETALL'' [VString name] h"

definition HDel :: "env \<Rightarrow> string \<Rightarrow> string \<Rightarrow> heap \<Rightarrow> Reply \<times> heap" where
  "HDel e name key h = Do e ''HDEL'' (([] @ [VString name]) @ [VString key]) h"

definition ZAdd :: "env \<Rightarrow> string \<Rightarrow> val \<Rightarrow> int \<Rightarrow> heap \<Rightarrow> Reply \<times> heap" where
  "ZAdd e key v score h = Do e ''ZADD'' [VString key, VInt score, v] h"

definition ZRem :: "env \<Rightarrow> string \<Rightarrow> val \<Rightarrow> heap \<Rightarrow> Reply \<times> heap" where
  "ZRem e key v h = Do e ''ZREM'' [VString key, v] h"

definition ZRange :: "env \<Rightarrow> val list \<Rightarrow> heap \<Rightarrow> Reply \<times> heap" where
  "ZRange e vs h = Do e ''ZRANGE'' vs h"

definition ZInterStore :: "env \<Rightarrow> val list \<Rightarrow> heap \<Rightarrow> Reply \<times> heap" where
  "ZInterStore e vs h = Do e ''ZINTERSTORE'' vs h"

section \<open>Reply decoding\<close>

text \<open>
  Modelled from the spec: the reply helpers of the redigo library (\<open>redis.String\<close>,
  \<open>redis.Float64\<close>, \<open>redis.Int64\<close>, \<open>redis.Int\<close>, \<open>redis.Bool\<close>,
  \<open>redis.Strings\<close>, \<open>redis.Bytes\<close>, \<open>redis.Values\<close>) are not among the
  sources. Each takes the stored result and the stored error. A stored error is returned
  at once, with the zero value and without a look at the result. Otherwise the result is
  converted by its dynamic type: absent data (\<open>nil\<close>) is the not-found sentinel
  \<open>ErrNil\<close>, an error reply is returned as the error, and a type the target shape does
  not accept is a decode error naming the helper and the type.
\<close>

definition unexpected_type :: "string \<Rightarrow> val \<Rightarrow> error" where
  "unexpected_type name reply =
     Errorf (''redigo: unexpected type for '' @ name @ '', got type '' @ fmt_T reply)"

text \<open>
  Modelled from the spec: \<open>redis.String\<close> of redigo is not among the sources. A stored
  error is returned at once; else a byte or string reply is the string.
\<close>

definition redis_String :: "val \<Rightarrow> error option \<Rightarrow> string \<times> error option" where
  "redis_String reply err =
     (case err of
        Some er \<Rightarrow> ([], Some er)
      | None \<Rightarrow>
          (case reply of
             VBytes b \<Rightarrow> (b, None)
           | VString s \<Rightarrow> (s, None)
           | VNil \<Rightarrow> ([], Some ErrNil)
           | VError m \<Rightarrow> ([], Some (RedisError m))
           | _ \<Rightarrow> ([], Some (unexpected_type ''String'' reply))))"

text \<open>
  Modelled from the spec: \<open>redis.Bytes\<close> of redigo is not among the sources. A stored
  error is returned at once; else a byte or string reply is the byte sequence.
\<close>

definition redis_Bytes :: "val \<Rightarrow> error option \<Rightarrow> string \<times> error option" where
  "redis_Bytes reply err =
     (case err of
        Some er \<Rightarrow> ([], Some er)
      | None \<Rightarrow>
          (case reply of
             VBytes b \<Rightarrow> (b, None)
           | VString s \<Rightarrow> (s, None)
           | VNil \<Rightarrow> ([], Some ErrNil)
           | VError m \<Rightarrow> ([], Some (RedisError m))
           | _ \<Rightarrow> ([], Some (unexpected_type ''Bytes'' reply))))"

text \<open>
  Modelled from the spec: \<open>redis.Int64\<close> of redigo is not among the sources. A stored
  error is returned at once; else an integer reply is the integer, a byte reply is parsed as a decimal integer.
\<close>

definition redis_Int64 :: "env \<Rightarrow> val \<Rightarrow> error option \<Rightarrow> int \<times> error option" where
  "redis_Int64 e reply err =
     (case err of
        Some er \<Rightarrow> (0, Some er)
      | None \<Rightarrow>
          (case reply of
             VInt n \<Rightarrow> (n, None)
           | VBytes b \<Rightarrow> ParseInt e b
           | VNil \<Rightarrow> (0, Some ErrNil)
           | VError m \<Rightarrow> (0, Some (RedisError m))
           | _ \<Rightarrow> (0, Some (unexpected_type ''Int64'' reply))))"

text \<open>
  Modelled from the spec: \<open>redis.Int\<close> of redigo is not among the sources. A stored
  error is returned at once; else an integer reply is the integer, a byte reply is parsed as a decimal integer.
\<close>

definition redis_Int :: "env \<Rightarrow> val \<Rightarrow> error option \<Rightarrow> int \<times> error option" where
  "redis_Int e reply err =
     (case err of
        Some er \<Rightarrow> (0, Some er)
      | None \<Rightarrow>
          (case reply of
             VInt n \<Rightarrow> (n, None)
           | VBytes b \<Rightarrow> ParseInt e b
           | VNil \<Rightarrow> (0, Some ErrNil)
           | VError m \<Rightarrow> (0, Some (RedisError m))
           | _ \<Rightarrow> (0, Some (unexpected_type ''Int'' reply))))"

text \<open>
  Modelled from the spec: \<open>redis.Float64\<close> of redigo is not among the sources. A stored
  error is returned at once; else a byte reply is parsed as a float.
\<close>

definition redis_Float64 :: "env \<Rightarrow> val \<Rightarrow> error option \<Rightarrow> 64 word \<times> error option" where
  "redis_Float64 e reply err =
     (case err of
        Some er \<Rightarrow> (0, Some er)
      | None \<Rightarrow>
          (case reply of
             VBytes b \<Rightarrow> ParseFloat e b
           | VNil \<Rightarrow> (0, Some ErrNil)
           | VError m \<Rightarrow> (0, Some (RedisError m))
           | _ \<Rightarrow> (0, Some (unexpected_type ''Float64'' reply))))"

text \<open>
  Modelled from the spec: \<open>redis.Bool\<close> of redigo is not among the sources. A stored
  error is returned at once; else an integer reply is true when it is not zero, a byte reply is parsed as a boolean.
\<close>

definition redis_Bool :: "env \<Rightarrow> val \<Rightarrow> error option \<Rightarrow> bool \<times> error option" where
  "redis_Bool e reply err =
     (case err of
        Some er \<Rightarrow> (False, Some er)
      | None \<Rightarrow>
          (case reply of
             VInt n \<Rightarrow> (n \<noteq> 0, None)
           | VBytes b \<Rightarrow> ParseBool e b
           | VNil \<Rightarrow> (False, Some ErrNil)
           | VError m \<Rightarrow> (False, Some (RedisError m))
           | _ \<Rightarrow> (False, Some (unexpected_type ''Bool'' reply))))"

text \<open>
  Modelled from the spec: \<open>redis.Values\<close> of redigo is not among the sources. A stored
  error is returned at once; else an array reply is the sequence of its elements.
\<close>

definition redis_Values :: "val \<Rightarrow> error option \<Rightarrow> val list \<times> error option" where
  "redis_Values reply err =
     (case err of
        Some er \<Rightarrow> ([], Some er)
      | None \<Rightarrow>
          (case reply of
             VArray xs \<Rightarrow> (xs, None)
           | VNil \<Rightarrow> ([], Some ErrNil)
           | VError m \<Rightarrow> ([], Some (RedisError m))
           | _ \<Rightarrow> ([], Some (unexpected_type ''Values'' reply))))"

text \<open>
  Modelled from the spec: the loop of \<open>redis.Strings\<close> of redigo is not among the
  sources. The result has one string per element of the reply: a \<open>nil\<close> element stays
  the empty string, byte and string elements are taken over, and any other element stops
  the loop with an error, the strings from there on left empty.
\<close>

fun strings_loop :: "val list \<Rightarrow> string list \<Rightarrow> string list \<times> error option" where
  "strings_loop [] acc = (acc, None)"
| "strings_loop (VNil # xs) acc = strings_loop xs (acc @ [[]])"
| "strings_loop (VBytes b # xs) acc = strings_loop xs (acc @ [b])"
| "strings_loop (VString s # xs) acc = strings_loop xs (acc @ [s])"
| "strings_loop (x # xs) acc =
     (acc @ replicate (Suc (length xs)) [],
      Some (Errorf (''redigo: unexpected element type for Strings, got type '' @ fmt_T x)))"

text \<open>
  Modelled from the spec: \<open>redis.Strings\<close> of redigo is not among the sources. A stored
  error is returned at once; else an array reply is converted element by element.
\<close>

definition redis_Strings :: "val \<Rightarrow> error option \<Rightarrow> string list \<times> error option" where
  "redis_Strings reply err =
     (case err of
        Some er \<Rightarrow> ([], Some er)
      | None \<Rightarrow>
          (case reply of
             VArray xs \<Rightarrow> strings_loop xs []
           | VNil \<Rightarrow> ([], Some ErrNil)
           | VError m \<Rightarrow> ([], Some (RedisError m))
           | _ \<Rightarrow> ([], Some (unexpected_type ''Strings'' reply))))"

text \<open>
  The accessors of \<open>Reply\<close> in cache.go. The receiver is a pointer, so each accessor
  returns the \<open>Reply\<close> as it leaves it beside its outcome. \<open>Unmarshal\<close> and
  \<open>Struct\<close> write into the object they are given and return it.
\<close>

definition Reply_Error :: "Reply \<Rightarrow> error option \<times> Reply" where
  "Reply_Error rp = (error rp, rp)"

definition Reply_String :: "Reply \<Rightarrow> (string \<times> error option) \<times> Reply" where
  "Reply_String rp = (redis_String (result rp) (error rp), rp)"

definition Reply_Float64 :: "env \<Rightarrow> Reply \<Rightarrow> (64 word \<times> error option) \<times> Reply" where
  "Reply_Float64 e rp = (redis_Float64 e (result rp) (error rp), rp)"

definition Reply_Int64 :: "env \<Rightarrow> Reply \<Rightarrow> (int \<times> error option) \<times> Reply" where
  "Reply_Int64 e rp = (redis_Int64 e (result rp) (error rp), rp)"

definition Reply_Int :: "env \<Rightarrow> Reply \<Rightarrow> (int \<times> error option) \<times> Reply" where
  "Reply_Int e rp = (redis_Int e (result rp) (error rp), rp)"

definition Reply_Bool :: "env \<Rightarrow> Reply \<Rightarrow> (bool \<times> error option) \<times> Reply" where
  "Reply_Bool e rp = (redis_Bool e (result rp) (error rp), rp)"

definition Reply_Strings :: "Reply \<Rightarrow> (string list \<times> error option) \<times> Reply" where
  "Reply_Strings rp = (redis_Strings (result rp) (error rp), rp)"

definition Reply_Bytes :: "Reply \<Rightarrow> (string \<times> error option) \<times> Reply" where
  "Reply_Bytes rp = (redis_Bytes (result rp) (error rp), rp)"

definition Reply_Unmarshal :: "env \<Rightarrow> val \<Rightarrow> Reply \<Rightarrow> (val \<times> error option) \<times> Reply" where
  "Reply_Unmarshal e obj rp =
     (let (b, err) = redis_Bytes (result rp) (error rp)
      in case err of
           Some er \<Rightarrow> ((obj, Some er), rp)
         | None \<Rightarrow>
             (let (obj', err') = json_Unmarshal e b obj
              in case err' of
                   Some er \<Rightarrow> ((obj', Some er), rp)
                 | None \<Rightarrow> ((obj', None), rp)))"

definition Reply_Struct :: "env \<Rightarrow> val \<Rightarrow> Reply \<Rightarrow> (val \<times> error option) \<times> Reply" where
  "Reply_Struct e obj rp =
     (let (result', err) = redis_Values (result rp) (error rp)
      in case err of
           Some er \<Rightarrow> ((obj, Some er), rp)
         | None \<Rightarrow>
             (let (obj', err') = ScanStruct e result' obj
              in case err' of
                   Some er \<Rightarrow> ((obj', Some er), rp)
                 | None \<Rightarrow> ((obj', None), rp)))"

text \<open>
  A call through the \<open>IReply\<close> interface: which accessor, and what it returned.
  \<open>decode_all\<close> makes a sequence of such calls on one \<open>Reply\<close>, each on the
  \<open>Reply\<close> as the call before left it.
\<close>

datatype accessor =
    AString | AFloat64 | AInt64 | AInt | ABool | AStrings | ABytes
  | AUnmarshal val | AStruct val

datatype decoded =
    DString string | DFloat64 "64 word" | DInt64 int | DInt int | DBool bool
  | DStrings "string list" | DBytes string | DObject val

fun decode :: "env \<Rightarrow> accessor \<Rightarrow> Reply \<Rightarrow> (decoded \<times> error option) \<times> Reply" where
  "decode e AString rp = (let ((x, err), rp') = Reply_String rp in ((DString x, err), rp'))"
| "decode e AFloat64 rp = (let ((x, err), rp') = Reply_Float64 e rp in ((DFloat64 x, err), rp'))"
| "decode e AInt64 rp = (let ((x, err), rp') = Reply_Int64 e rp in ((DInt64 x, err), rp'))"
| "decode e AInt rp = (let ((x, err), rp') = Reply_Int e rp in ((DInt x, err), rp'))"
| "decode e ABool rp = (let ((x, err), rp') = Reply_Bool e rp in ((DBool x, err), rp'))"
| "decode e AStrings rp = (let ((x, err), rp') = Reply_Strings rp in ((DStrings x, err), rp'))"
| "decode e ABytes rp = (let ((x, err), rp') = Reply_Bytes rp in ((DBytes x, err), rp'))"
| "decode e (AUnmarshal obj) rp =
     (let ((x, err), rp') = Reply_Unmarshal e obj rp in ((DObject x, err), rp'))"
| "decode e (AStruct obj) rp =
     (let ((x, err), rp') = Reply_Struct e obj rp in ((DObject x, err), rp'))"

text \<open>The zero value an accessor returns beside an error it passes on.\<close>

fun zero_of :: "accessor \<Rightarrow> decoded" where
  "zero_of AString = DString []"
| "zero_of AFloat64 = DFloat64 0"
| "zero_of AInt64 = DInt64 0"
| "zero_of AInt = DInt 0"
| "zero_of ABool = DBool False"
| "zero_of AStrings = DStrings []"
| "zero_of ABytes = DBytes []"
| "zero_of (AUnmarshal obj) = DObject obj"
| "zero_of (AStruct obj) = DObject obj"

fun decode_all ::
  "env \<Rightarrow> accessor list \<Rightarrow> Reply \<Rightarrow> (decoded \<times> error option) list \<times> Reply" where
  "decode_all e [] rp = ([], rp)"
| "decode_all e (a # as) rp =
     (let (out, rp1) = decode e a rp;
          (outs, rp2) = decode_all e as rp1
      in (out # outs, rp2))"

section \<open>cache.go: the methods that decode\<close>

definition Ping :: "env \<Rightarrow> heap \<Rightarrow> error option \<times> heap" where
  "Ping e h =
     (let (rp, h1) = Do e ''PING'' [] h;
          ((reply, err), rp') = Reply_String rp
      in if err \<noteq> None \<or> reply \<noteq> ''PONG''
         then (Some (ErrorFailedConnect (connection (client h1)) err), h1)
         else (None, h1))"

definition Exists :: "env \<Rightarrow> string \<Rightarrow> heap \<Rightarrow> (bool \<times> error option) \<times> heap" where
  "Exists e key h =
     (let (rp, h1) = Do e ''EXISTS'' [VString key] h;
          ((reply, err), rp') = Reply_Int e rp
      in if err \<noteq> None
         then ((False, Some (ErrorFailedConnect (connection (client h1)) err)), h1)
         else ((reply = 1, None), h1))"

section \<open>Calls on the client\<close>

text \<open>
  A call of a method of \<open>*Redis\<close> with its arguments, and what it returns. \<open>invoke\<close>
  runs one call, \<open>invoke_all\<close> a sequence of calls, each in the state the call before
  left.
\<close>

datatype call =
    CPing
  | CDo string "val list"
  | CExists string
  | CTTL string
  | CExpire string int
  | CIncr string
  | CIncrBy string int
  | CDecr string
  | CDecrBy string int
  | CGet string
  | CSet string val
  | CSetWithExpire string int val
  | CSetNoExpire string val
  | CDel string
  | CSetStruct string val
  | CSetStructWithExpire string int val
  | CSetStructNoExpire string val
  | CSAdd string "string list"
  | CSAddWithExpire string int "string list"
  | CSAddNoExpire string "string list"
  | CSRem string "string list"
  | CSIsMember string string
  | CSMembers string
  | CSCard string
  | CHSet string val
  | CHSetWithExpire string int val
  | CHSetNoExpire string val
  | CHGet string string
  | CHGetAll string
  | CHDel string string
  | CZAdd string val int
  | CZRem string val
  | CZRange "val list"
  | CZInterStore "val list"

datatype returned =
    RError "error option"
  | RBool bool "error option"
  | RReply Reply

definition as_reply :: "Reply \<times> heap \<Rightarrow> returned \<times> heap" where
  "as_reply x = (RReply (fst x), snd x)"

fun invoke :: "env \<Rightarrow> call \<Rightarrow> heap \<Rightarrow> returned \<times> heap" where
  "invoke e CPing h = (let (err, h') = Ping e h in (RError err, h'))"
| "invoke e (CDo command args) h = as_reply (Do e command args h)"
| "invoke e (CExists key) h = (let ((b, err), h') = Exists e key h in (RBool b err, h'))"
| "invoke e (CTTL key) h = as_reply (TTL e key h)"
| "invoke e (CExpire key expire) h = as_reply (Expire e key expire h)"
| "invoke e (CIncr key) h = as_reply (Incr e key h)"
| "invoke e (CIncrBy key incr) h = as_reply (IncrBy e key incr h)"
| "invoke e (CDecr key) h = as_reply (Decr e key h)"
| "invoke e (CDecrBy key decr) h = as_reply (DecrBy e key decr h)"
| "invoke e (CGet key) h = as_reply (Get e key h)"
| "invoke e (CSet key v) h = as_reply (Set e key v h)"
| "invoke e (CSetWithExpire key expire v) h = as_reply (SetWithExpire e key expire v h)"
| "invoke e (CSetNoExpire key v) h = as_reply (SetNoExpire e key v h)"
| "invoke e (CDel key) h = as_reply (Del e key h)"
| "invoke e (CSetStruct key v) h = as_reply (SetStruct e key v h)"
| "invoke e (CSetStructWithExpire key expire v) h =
     as_reply (SetStructWithExpire e key expire v h)"
| "invoke e (CSetStructNoExpire key v) h = as_reply (SetStructNoExpire e key v h)"
| "invoke e (CSAdd key vs) h = as_reply (SAdd e key vs h)"
| "invoke e (CSAddWithExpire key expire vs) h = as_reply (SAddWithExpire e key expire vs h)"
| "invoke e (CSAddNoExpire key vs) h = as_reply (SAddNoExpire e key vs h)"
| "invoke e (CSRem key vs) h = as_reply (SRem e key vs h)"
| "invoke e (CSIsMember key v) h = as_reply (SIsMember e key v h)"
| "invoke e (CSMembers key) h = as_reply (SMembers e key h)"
| "invoke e (CSCard key) h = as_reply (SCard e key h)"
| "invoke e (CHSet name obj) h = as_reply (HSet e name obj h)"
| "invoke e (CHSetWithExpire name expire obj) h = as_reply (HSetWithExpire e name expire obj h)"
| "invoke e (CHSetNoExpire name obj) h = as_reply (HSetNoExpire e name obj h)"
| "invoke e (CHGet name key) h = as_reply (HGet e name key h)"
| "invoke e (CHGetAll name) h = as_reply (HGetAll e name h)"
| "invoke e (CHDel name key) h = as_reply (HDel e name key h)"
| "invoke e (CZAdd key v score) h = as_reply (ZAdd e key v score h)"
| "invoke e (CZRem key v) h = as_reply (ZRem e key v h)"
| "invoke e (CZRange vs) h = as_reply (ZRange e vs h)"
| "invoke e (CZInterStore vs) h = as_reply (ZInterStore e vs h)"

fun invoke_all :: "env \<Rightarrow> call list \<Rightarrow> heap \<Rightarrow> returned list \<times> heap" where
  "invoke_all e [] h = ([], h)"
| "invoke_all e (c # cs) h =
     (let (r, h1) = invoke e c h;
          (rs, h2) = invoke_all e cs h1
      in (r # rs, h2))"

section \<open>Concrete collaborators\<close>

text \<open>
  Instances of the collaborators, for running the definitions on concrete inputs. The
  server of \<open>plain_env\<close> answers \<open>PONG\<close> to \<open>PING\<close>, \<open>0\<close> to
  \<open>EXISTS\<close>, \<open>1\<close> to \<open>EXPIRE\<close> and \<open>SADD\<close>, and \<open>OK\<close> to everything
  else. Its JSON codec is \<open>encoding/json\<close> at three values: a struct \<open>point\<close> with
  the exported fields \<open>X\<close> and \<open>Y\<close>, a struct \<open>user\<close> with an exported field
  \<open>Name\<close> and an unexported field \<open>secret\<close> (which the encoder skips and the decoder
  leaves as it finds it), and a channel, which the encoder refuses. The parts of the
  collaborators that no statement below runs return an error.
\<close>

definition point_value :: val where
  "point_value = VStruct ''point'' [(''X'', VInt 1), (''Y'', VString ''z'')]"

definition point_zero :: val where
  "point_zero = VStruct ''point'' [(''X'', VInt 0), (''Y'', VString [])]"

definition point_json :: string where
  \<open>point_json = ''{"X":1,"Y":"z"}''\<close>

definition user_value :: val where
  "user_value = VStruct ''user'' [(''Name'', VString ''a''), (''secret'', VInt 7)]"

definition user_zero :: val where
  "user_zero = VStruct ''user'' [(''Name'', VString []), (''secret'', VInt 0)]"

definition user_decoded :: val where
  "user_decoded = VStruct ''user'' [(''Name'', VString ''a''), (''secret'', VInt 0)]"

definition user_json :: string where
  \<open>user_json = ''{"Name":"a"}''\<close>

definition plain_Marshal :: "val \<Rightarrow> string \<times> error option" where
  "plain_Marshal v =
     (if v = point_value then (point_json, None)
      else if v = user_value then (user_json, None)
      else if v = VChan then ([], Some (LibError ''json: unsupported type: chan int''))
      else ([], Some (LibError ''json: value outside this instance'')))"

definition plain_Unmarshal :: "string \<Rightarrow> val \<Rightarrow> val \<times> error option" where
  "plain_Unmarshal b obj =
     (if b = point_json \<and> obj = point_zero then (point_value, None)
      else if b = user_json \<and> obj = user_zero then (user_decoded, None)
      else (obj, Some (LibError ''json: input outside this instance'')))"

definition plain_Do :: "event list \<Rightarrow> 64 word \<Rightarrow> string \<Rightarrow> val list \<Rightarrow> val \<times> error option" where
  "plain_Do tr t command args =
     (if command = ''PING'' then (VString ''PONG'', None)
      else if command = ''EXISTS'' then (VInt 0, None)
      else if command = ''EXPIRE'' \<or> command = ''SADD'' then (VInt 1, None)
      else (VString ''OK'', None))"

definition plain_env :: env where
  "plain_env =
     \<lparr>pool_Get = (\<lambda>p tr. ActiveConn),
      conn_Do = plain_Do,
      json_Marshal = plain_Marshal,
      json_Unmarshal = plain_Unmarshal,
      Args_AddFlat = (\<lambda>obj. [obj]),
      ScanStruct = (\<lambda>vs obj. (obj, Some (LibError ''redigo: outside this instance''))),
      ParseInt = (\<lambda>s. (0, Some (LibError ''strconv: outside this instance''))),
      ParseFloat = (\<lambda>s. (0, Some (LibError ''strconv: outside this instance''))),
      ParseBool = (\<lambda>s. (False, Some (LibError ''strconv: outside this instance'')))\<rparr>"

text \<open>A server that answers \<open>PING\<close> with \<open>OK\<close> and no error.\<close>

definition odd_ping_env :: env where
  "odd_ping_env = plain_env\<lparr>conn_Do := (\<lambda>tr t command args. (VString ''OK'', None))\<rparr>"

text \<open>A server on which every \<open>EXPIRE\<close> fails, and one on which every command times out.\<close>

definition expire_fails_env :: env where
  "expire_fails_env =
     plain_env\<lparr>conn_Do := (\<lambda>tr t command args.
        if command = ''EXPIRE'' then (VError ''ERR expire'', Some (RedisError ''ERR expire''))
        else plain_Do tr t command args)\<rparr>"


text \<open>A pool whose dial fails: it hands out the error connection.\<close>

definition dial_fails_env :: env where
  "dial_fails_env =
     plain_env\<lparr>pool_Get := (\<lambda>p tr. ErrorConn (NetError ''dial tcp: connection refused'' False))\<rparr>"

definition local_config :: RedisConfig where
  "local_config =
     \<lparr>Connection = ''localhost:6379'', Password = [], Timeout = 5, MaxIdle = 2, MaxActive = 10\<rparr>"

text \<open>The client that \<open>ConnectRedis\<close> builds from \<open>local_config\<close>, with an empty trace.\<close>

definition local_client :: Redis where
  "local_client =
     \<lparr>connection = ''localhost:6379'', timeout = 5000000000,
      pool = \<lparr>Pool_MaxIdle = 2, Pool_MaxActive = 10, Pool_IdleTimeout = 5000000000,
               Pool_Wait = True,
               Pool_Dial = \<lparr>dial_network = ''tcp'', dial_address = ''localhost:6379'',
                             dial_connect_timeout = 5000000000\<rparr>\<rparr>\<rparr>"

definition local_heap :: heap where
  "local_heap = \<lparr>client = local_client, trace = []\<rparr>"




section \<open>Facts about the trace and the generic command\<close>

lemma commands_append: "commands (xs @ ys) = commands xs @ commands ys"
  by (induction xs rule: commands.induct) simp_all

lemma in_use_append: "in_use (xs @ ys) = in_use xs + in_use ys"
  by (induction xs rule: in_use.induct) simp_all

lemma Do_unfold:
  "Do e command args h =
     (let c = pool_Get e (pool (client h)) (trace h);
          tr1 = trace h @ [PoolGet c];
          r = fst (DoWithTimeout e c (timeout (client h)) command args tr1)
      in (\<lparr>result = fst r, error = snd r\<rparr>,
          h\<lparr>trace := trace h @ [PoolGet c, ConnDo c (timeout (client h)) command args, ConnClose c]\<rparr>))"
  by (simp add: Do_def getConnection_def DoWithTimeout_def Close_def Let_def split: conn.splits prod.splits)

lemma Do_client: "client (snd (Do e command args h)) = client h"
  by (simp add: Do_unfold Let_def)

lemma Do_commands:
  "commands (trace (snd (Do e command args h))) = commands (trace h) @ [(command, args)]"
  by (simp add: Do_unfold Let_def commands_append)

lemma Do_in_use: "in_use (trace (snd (Do e command args h))) = in_use (trace h)"
  by (cases "pool_Get e (pool (client h)) (trace h)") (simp_all add: Do_unfold Let_def in_use_append)

lemma stringToInterface_eq: "stringToInterface key vs = VString key # map VString vs"
proof -
  have "append_each args vs = args @ map VString vs" for args
    by (induction vs arbitrary: args) simp_all
  then show ?thesis by (simp add: stringToInterface_def)
qed

lemma Set_unfold:
  "Set e key v h =
     (fst (Do e ''SET'' [VString key, v] h),
      snd (Do e ''EXPIRE'' [VString key, VInt 900] (snd (Do e ''SET'' [VString key, v] h))))"
  by (simp add: Set_def Expire_def split_beta)

lemma Do_reply:
  "fst (Do e command args h) =
     \<lparr>result = fst (fst (DoWithTimeout e (pool_Get e (pool (client h)) (trace h))
                (timeout (client h)) command args
                (trace h @ [PoolGet (pool_Get e (pool (client h)) (trace h))]))),
      error = snd (fst (DoWithTimeout e (pool_Get e (pool (client h)) (trace h))
                (timeout (client h)) command args
                (trace h @ [PoolGet (pool_Get e (pool (client h)) (trace h))])))\<rparr>"
  by (simp add: Do_unfold Let_def)


lemma Do_reply_other_server:
  "command \<noteq> other \<Longrightarrow>
   fst (Do (e\<lparr>conn_Do := \<lambda>tr t c a. if c = other then x else conn_Do e tr t c a\<rparr>) command args h)
     = fst (Do e command args h)"
  by (simp add: Do_reply DoWithTimeout_def split: conn.splits)

text \<open>
  Claim C1. For every key and value, \<open>Set\<close> sends a \<open>SET\<close> of the key and the
  value and then an \<open>EXPIRE\<close> of the key with 900 seconds, and nothing else. The reply
  it returns is the reply of the \<open>SET\<close>. What the server answers to the \<open>EXPIRE\<close>
  does not show in it: with the answer to every \<open>EXPIRE\<close> replaced by any other
  answer \<open>x\<close>, a failure included, \<open>Set\<close> returns the same reply.
\<close>

theorem Set_issues_SET_then_EXPIRE_900:
  "commands (trace (snd (Set e key v h))) =
     commands (trace h) @ [(''SET'', [VString key, v]), (''EXPIRE'', [VString key, VInt 900])]
   \<and> fst (Set e key v h) = fst (Do e ''SET'' [VString key, v] h)
   \<and> fst (Set (e\<lparr>conn_Do := \<lambda>tr t c a. if c = ''EXPIRE'' then x else conn_Do e tr t c a\<rparr>) key v h)
       = fst (Set e key v h)"
  by (simp add: Set_unfold Do_commands Do_reply_other_server)

lemma SAdd_unfold:
  "SAdd e key vs h =
     (fst (Do e ''SADD'' (VString key # map VString vs) h),
      snd (Do e ''EXPIRE'' [VString key, VInt 900]
             (snd (Do e ''SADD'' (VString key # map VString vs) h))))"
  by (simp add: SAdd_def Expire_def split_beta stringToInterface_eq Let_def)

text \<open>
  Claim C4. Of the three set-add methods only \<open>SAdd\<close> sends an \<open>EXPIRE\<close> of the
  key with 900 seconds after the \<open>SADD\<close>; \<open>SAddWithExpire\<close> and
  \<open>SAddNoExpire\<close> send the \<open>SADD\<close> alone. In all three the arguments of the
  \<open>SADD\<close> are the key followed by the member values in their order.
\<close>

theorem only_plain_SAdd_expires:
  "commands (trace (snd (SAdd e key vs h))) =
     commands (trace h) @
       [(''SADD'', VString key # map VString vs), (''EXPIRE'', [VString key, VInt 900])]
   \<and> commands (trace (snd (SAddWithExpire e key expire vs h))) =
     commands (trace h) @ [(''SADD'', VString key # map VString vs)]
   \<and> commands (trace (snd (SAddNoExpire e key vs h))) =
     commands (trace h) @ [(''SADD'', VString key # map VString vs)]"
  by (simp add: SAdd_unfold SAddWithExpire_def SAddNoExpire_def Do_commands stringToInterface_eq Let_def)

text \<open>
  Claim C9. \<open>SAddWithExpire\<close> and \<open>SAddNoExpire\<close> are equal on every input: for
  every key, expiry and member values and in every state, \<open>SAddWithExpire\<close> returns
  the reply and leaves the state that \<open>SAddNoExpire\<close> does, those of the one
  \<open>SADD\<close>. The expiry argument is not used, and no \<open>EXPIRE\<close> is sent.
\<close>

theorem SAddWithExpire_is_SAddNoExpire:
  "SAddWithExpire e key expire vs h = SAddNoExpire e key vs h
   \<and> SAddWithExpire e key expire vs h = Do e ''SADD'' (VString key # map VString vs) h
   \<and> commands (trace (snd (SAddWithExpire e key expire vs h))) =
       commands (trace h) @ [(''SADD'', VString key # map VString vs)]"
  by (simp add: SAddWithExpire_def SAddNoExpire_def Do_commands stringToInterface_eq Let_def)

section \<open>Connecting, decoding and the typed operations\<close>

text \<open>
  What \<open>ConnectRedis\<close> returns is decided by the error of the \<open>PING\<close> alone: the
  reply value of the \<open>PING\<close> is dropped. The connection taken for the \<open>PING\<close> is
  not closed: when \<open>ConnectRedis\<close> returns a client, one more live connection is out.
\<close>

lemma ConnectRedis_keeps_connection:
  "fst (fst (ConnectRedis e config tr)) = Some r \<Longrightarrow>
   in_use (snd (ConnectRedis e config tr)) = in_use tr + 1"
  by (auto simp add: ConnectRedis_def DoWithTimeout_def Let_def split_beta in_use_append
      split: option.splits conn.splits)

lemma ConnectRedis_result:
  "fst (ConnectRedis e config tr) =
     (case snd (fst (DoWithTimeout e
             (pool_Get e
               \<lparr>Pool_MaxIdle = MaxIdle config, Pool_MaxActive = MaxActive config,
                Pool_IdleTimeout = word_of_int (Timeout config) * 1000000000, Pool_Wait = True,
                Pool_Dial = \<lparr>dial_network = ''tcp'', dial_address = Connection config,
                   dial_connect_timeout = word_of_int (Timeout config) * 1000000000\<rparr>\<rparr> tr)
             (word_of_int (Timeout config) * 1000000000) ''PING'' []
             (tr @ [PoolGet (pool_Get e
               \<lparr>Pool_MaxIdle = MaxIdle config, Pool_MaxActive = MaxActive config,
                Pool_IdleTimeout = word_of_int (Timeout config) * 1000000000, Pool_Wait = True,
                Pool_Dial = \<lparr>dial_network = ''tcp'', dial_address = Connection config,
                   dial_connect_timeout = word_of_int (Timeout config) * 1000000000\<rparr>\<rparr> tr)]))) of
        Some er \<Rightarrow> (None, Some (ErrorFailedConnect (Connection config) (Some er)))
      | None \<Rightarrow>
          (Some \<lparr>connection = Connection config,
                 timeout = word_of_int (Timeout config) * 1000000000,
                 pool = \<lparr>Pool_MaxIdle = MaxIdle config, Pool_MaxActive = MaxActive config,
                   Pool_IdleTimeout = word_of_int (Timeout config) * 1000000000, Pool_Wait = True,
                   Pool_Dial = \<lparr>dial_network = ''tcp'', dial_address = Connection config,
                     dial_connect_timeout = word_of_int (Timeout config) * 1000000000\<rparr>\<rparr>\<rparr>,
           None))"
  by (simp add: ConnectRedis_def Let_def split_beta split: option.splits)

text \<open>
  Claim C2. The claim: \<open>ConnectRedis\<close> returns no client and an error when the dial or
  the \<open>PING\<close> fails or the \<open>PING\<close> returns an unexpected value. The code at a
  server that answers the \<open>PING\<close> with \<open>OK\<close> and no error: \<open>ConnectRedis\<close>
  returns the client and no error.
\<close>

theorem ConnectRedis_ignores_ping_reply:
  "ConnectRedis odd_ping_env local_config [] =
     ((Some local_client, None),
      [PoolGet ActiveConn, ConnDo ActiveConn 5000000000 ''PING'' []])"
  by (simp add: ConnectRedis_def DoWithTimeout_def odd_ping_env_def plain_env_def
      local_config_def local_client_def Let_def)

text \<open>
  On the same server the method \<open>Ping\<close> of the client built above reports the failure:
  it compares the reply with \<open>PONG\<close>. The error it formats is the nil error of the
  command.
\<close>

lemma Ping_rejects_other_reply:
  "fst (Ping odd_ping_env local_heap) =
     Some (Errorf ''Failed to connect to redis localhost:6379. Error: %!s(<nil>)'')"
  by (simp add: Ping_def Do_unfold Reply_String_def redis_String_def DoWithTimeout_def
      odd_ping_env_def plain_env_def local_client_def local_heap_def ErrorFailedConnect_def
      fmt_s_def Let_def)

text \<open>
  A failed dial, and likewise any error of the \<open>PING\<close>, gives no client and an error
  that carries the endpoint and the cause.
\<close>

lemma ConnectRedis_fails_on_error:
  "ConnectRedis dial_fails_env local_config [] =
     ((None, Some (Errorf ''Failed to connect to redis localhost:6379. Error: dial tcp: connection refused'')),
      [PoolGet (ErrorConn (NetError ''dial tcp: connection refused'' False)),
       ConnDo (ErrorConn (NetError ''dial tcp: connection refused'' False)) 5000000000 ''PING'' []])"
  by (simp add: ConnectRedis_def DoWithTimeout_def dial_fails_env_def plain_env_def
      local_config_def ErrorFailedConnect_def fmt_s_def Let_def)


lemma decode_keeps_reply: "snd (decode e a rp) = rp"
  by (cases a)
     (simp_all add: Reply_String_def Reply_Float64_def Reply_Int64_def Reply_Int_def
        Reply_Bool_def Reply_Strings_def Reply_Bytes_def Reply_Unmarshal_def Reply_Struct_def
        split_beta split: option.splits)

lemma decode_stored_error:
  "error rp = Some er \<Longrightarrow> fst (decode e a rp) = (zero_of a, Some er)"
  by (cases a)
     (simp_all add: Reply_String_def Reply_Float64_def Reply_Int64_def Reply_Int_def
        Reply_Bool_def Reply_Strings_def Reply_Bytes_def Reply_Unmarshal_def Reply_Struct_def
        redis_String_def redis_Float64_def redis_Int64_def redis_Int_def redis_Bool_def
        redis_Strings_def redis_Bytes_def redis_Values_def)

lemma decode_all_same_reply:
  "decode_all e as rp = (map (\<lambda>a. fst (decode e a rp)) as, rp)"
proof (induction as)
  case Nil
  show ?case by simp
next
  case (Cons a as)
  then show ?case by (simp add: split_beta decode_keeps_reply)
qed

text \<open>
  Claim C3. For a \<open>Reply\<close> whose stored error is not nil, every accessor (\<open>String\<close>,
  \<open>Float64\<close>, \<open>Int64\<close>, \<open>Int\<close>, \<open>Bool\<close>, \<open>Strings\<close>, \<open>Bytes\<close>,
  \<open>Unmarshal\<close>, \<open>Struct\<close>) returns that error beside the zero value of its shape
  (for \<open>Unmarshal\<close> and \<open>Struct\<close> the object as it was given), and returns the same
  with any other stored result in place. For every \<open>Reply\<close>, an accessor leaves the
  \<open>Reply\<close> as it was, and any sequence of accessor calls on one \<open>Reply\<close> returns,
  call by call, what each accessor returns on the \<open>Reply\<close> at the start, and leaves
  the \<open>Reply\<close> unchanged. No accessor takes the client or the pool: none can send a
  command.
\<close>

theorem decode_surfaces_stored_error_and_is_pure:
  "(error rp = Some er \<longrightarrow>
      fst (decode e a rp) = (zero_of a, Some er)
      \<and> fst (decode e a (rp\<lparr>result := other\<rparr>)) = fst (decode e a rp))
   \<and> snd (decode e a rp) = rp
   \<and> decode_all e as rp = (map (\<lambda>a. fst (decode e a rp)) as, rp)"
  by (simp add: decode_keeps_reply decode_stored_error decode_all_same_reply)

theorem decode_surfaces_stored_error_and_is_pure_witness:
  "decode plain_env AInt \<lparr>result = VInt 7, error = Some ErrNil\<rparr> =
     ((DInt 0, Some ErrNil), \<lparr>result = VInt 7, error = Some ErrNil\<rparr>)
   \<and> fst (decode plain_env AInt \<lparr>result = VString ''x'', error = Some ErrNil\<rparr>) =
     (DInt 0, Some ErrNil)
   \<and> decode_all plain_env [AInt, AString, AInt] \<lparr>result = VInt 7, error = Some ErrNil\<rparr> =
     ([(DInt 0, Some ErrNil), (DString [], Some ErrNil), (DInt 0, Some ErrNil)],
      \<lparr>result = VInt 7, error = Some ErrNil\<rparr>)"
  using decode_surfaces_stored_error_and_is_pure
    [of "\<lparr>result = VInt 7, error = Some ErrNil\<rparr>" ErrNil plain_env AInt "VString ''x''"
        "[AInt, AString, AInt]"]
  by (simp add: Reply_Int_def redis_Int_def Reply_String_def redis_String_def)

text \<open>
  Claim C6. When the \<open>EXISTS\<close> command succeeds, that is, its reply holds an integer
  \<open>n\<close> and no error, \<open>Exists\<close> returns a boolean and a nil error; the boolean is
  true exactly when \<open>n = 1\<close>, so the reply \<open>0\<close> of a key that is not there (as
  after a \<open>Del\<close>) gives false and no error. \<open>Exists\<close> sends the one
  \<open>EXISTS\<close> command.
\<close>

theorem Exists_reads_one_as_true:
  "fst (Do e ''EXISTS'' [VString key] h) = \<lparr>result = VInt n, error = None\<rparr> \<Longrightarrow>
   fst (Exists e key h) = ((n = 1), None)
   \<and> commands (trace (snd (Exists e key h))) = commands (trace h) @ [(''EXISTS'', [VString key])]"
  by (simp add: Exists_def split_beta Reply_Int_def redis_Int_def Do_commands)

theorem Exists_reads_one_as_true_witness:
  "fst (Do plain_env ''EXISTS'' [VString ''k''] local_heap) = \<lparr>result = VInt 0, error = None\<rparr>
   \<and> fst (Exists plain_env ''k'' local_heap) = (False, None)
   \<and> commands (trace (snd (Exists plain_env ''k'' local_heap))) = [(''EXISTS'', [VString ''k''])]"
  using Exists_reads_one_as_true [of plain_env "''k''" local_heap 0]
  by (simp add: Do_reply DoWithTimeout_def plain_env_def plain_Do_def local_heap_def)


lemma Reply_Unmarshal_bytes:
  "fst (Reply_Unmarshal e obj \<lparr>result = VBytes b, error = None\<rparr>) = json_Unmarshal e b obj"
  by (cases "json_Unmarshal e b obj") (simp add: Reply_Unmarshal_def redis_Bytes_def split: option.splits)

lemma SetStruct_marshalled:
  "json_Marshal e v = (b, None) \<Longrightarrow> SetStruct e key v h = Set e key (VBytes b) h"
  by (simp add: SetStruct_def)

text \<open>
  Claim C7, as stated, fails: the struct \<open>user\<close> with an unexported field serializes
  with no error, \<open>SetStruct\<close> stores these bytes, and \<open>Unmarshal\<close> on the stored
  bytes gives a value whose unexported field is zero, not the value stored.
\<close>

theorem SetStruct_round_trip_counterexample:
  "json_Marshal plain_env user_value = (user_json, None)
   \<and> commands (trace (snd (SetStruct plain_env ''k'' user_value local_heap))) =
       [(''SET'', [VString ''k'', VBytes user_json]), (''EXPIRE'', [VString ''k'', VInt 900])]
   \<and> fst (Reply_Unmarshal plain_env user_zero \<lparr>result = VBytes user_json, error = None\<rparr>) =
       (user_decoded, None)
   \<and> user_decoded \<noteq> user_value"
  by (simp add: SetStruct_def Set_unfold Do_commands Reply_Unmarshal_bytes plain_env_def
      plain_Marshal_def plain_Unmarshal_def local_heap_def user_value_def user_decoded_def
      user_zero_def point_value_def user_json_def point_json_def point_zero_def)

text \<open>
  Claim C7, amended. For every value \<open>v\<close> that serializes with no error to the bytes
  \<open>b\<close>, \<open>SetStruct\<close> sends \<open>b\<close> unchanged as the value of the \<open>SET\<close>
  (followed by the \<open>EXPIRE\<close> of 900 seconds), and \<open>Unmarshal\<close> on a reply that
  holds \<open>b\<close> returns what the JSON decoder returns on \<open>b\<close>: the round trip gives
  back \<open>v\<close> exactly when the JSON codec decodes the encoding of \<open>v\<close> to \<open>v\<close>.
\<close>

theorem SetStruct_round_trip_of_codec:
  "json_Marshal e v = (b, None) \<Longrightarrow>
   commands (trace (snd (SetStruct e key v h))) =
     commands (trace h) @
       [(''SET'', [VString key, VBytes b]), (''EXPIRE'', [VString key, VInt 900])]
   \<and> fst (Reply_Unmarshal e obj \<lparr>result = VBytes b, error = None\<rparr>) = json_Unmarshal e b obj
   \<and> (fst (Reply_Unmarshal e obj \<lparr>result = VBytes b, error = None\<rparr>) = (v, None))
       = (json_Unmarshal e b obj = (v, None))"
  by (simp add: SetStruct_marshalled Set_unfold Do_commands Reply_Unmarshal_bytes)

theorem SetStruct_round_trip_of_codec_witness:
  "json_Marshal plain_env point_value = (point_json, None)
   \<and> commands (trace (snd (SetStruct plain_env ''k'' point_value local_heap))) =
       [(''SET'', [VString ''k'', VBytes point_json]), (''EXPIRE'', [VString ''k'', VInt 900])]
   \<and> fst (Reply_Unmarshal plain_env point_zero \<lparr>result = VBytes point_json, error = None\<rparr>)
       = (point_value, None)"
proof -
  have m: "json_Marshal plain_env point_value = (point_json, None)"
    by (simp add: plain_env_def plain_Marshal_def)
  have u: "json_Unmarshal plain_env point_json point_zero = (point_value, None)"
    by (simp add: plain_env_def plain_Unmarshal_def)
  show ?thesis
    using m u SetStruct_round_trip_of_codec [OF m, of "''k''" local_heap point_zero]
    by (simp add: local_heap_def)
qed

text \<open>
  Claim C10. For every value whose JSON marshalling fails, \<open>SetStruct\<close>,
  \<open>SetStructWithExpire\<close> and \<open>SetStructNoExpire\<close> return a reply with a nil
  result and the marshalling error, and leave the state as it was: the trace gets no
  event, so the pool is not touched and no command is sent.
\<close>

theorem SetStruct_marshal_error_sends_nothing:
  "json_Marshal e v = (b, Some er) \<Longrightarrow>
   SetStruct e key v h = (\<lparr>result = VNil, error = Some er\<rparr>, h)
   \<and> SetStructWithExpire e key expire v h = (\<lparr>result = VNil, error = Some er\<rparr>, h)
   \<and> SetStructNoExpire e key v h = (\<lparr>result = VNil, error = Some er\<rparr>, h)"
  by (simp add: SetStruct_def SetStructWithExpire_def SetStructNoExpire_def)

theorem SetStruct_marshal_error_sends_nothing_witness:
  "json_Marshal plain_env VChan = ([], Some (LibError ''json: unsupported type: chan int''))
   \<and> SetStruct plain_env ''k'' VChan local_heap =
       (\<lparr>result = VNil, error = Some (LibError ''json: unsupported type: chan int'')\<rparr>, local_heap)
   \<and> SetStructWithExpire plain_env ''k'' 60 VChan local_heap =
       (\<lparr>result = VNil, error = Some (LibError ''json: unsupported type: chan int'')\<rparr>, local_heap)
   \<and> SetStructNoExpire plain_env ''k'' VChan local_heap =
       (\<lparr>result = VNil, error = Some (LibError ''json: unsupported type: chan int'')\<rparr>, local_heap)"
proof -
  have m: "json_Marshal plain_env VChan = ([], Some (LibError ''json: unsupported type: chan int''))"
    by (simp add: plain_env_def plain_Marshal_def point_value_def user_value_def)
  show ?thesis
    using m SetStruct_marshal_error_sends_nothing [OF m, of "''k''" local_heap 60]
    by simp
qed


lemma invoke_client: "client (snd (invoke e c h)) = client h"
  by (cases c)
     (simp_all add: as_reply_def Ping_def Exists_def TTL_def Expire_def Incr_def IncrBy_def
        Decr_def DecrBy_def Get_def Set_def SetWithExpire_def SetNoExpire_def Del_def
        SetStruct_def SetStructWithExpire_def SetStructNoExpire_def SAdd_def
        SAddWithExpire_def SAddNoExpire_def SRem_def SIsMember_def SMembers_def SCard_def
        HSet_def HSetWithExpire_def HSetNoExpire_def HGet_def HGetAll_def HDel_def ZAdd_def
        ZRem_def ZRange_def ZInterStore_def Let_def split_beta Do_client
        split: option.splits)

lemma invoke_all_client: "client (snd (invoke_all e cs h)) = client h"
  by (induction cs arbitrary: h) (simp_all add: split_beta invoke_client)

text \<open>
  Claim C8. A client that \<open>ConnectRedis\<close> returns has its connection string, timeout
  and pool set from the configuration, and no method call changes them: after any call,
  and after any sequence of calls, in any state of the trace, the client object is the one
  \<open>ConnectRedis\<close> returned.
\<close>

theorem client_fields_never_change:
  "fst (fst (ConnectRedis e config tr)) = Some r \<Longrightarrow>
   connection r = Connection config
   \<and> timeout r = word_of_int (Timeout config) * 1000000000
   \<and> pool r =
       \<lparr>Pool_MaxIdle = MaxIdle config, Pool_MaxActive = MaxActive config,
        Pool_IdleTimeout = word_of_int (Timeout config) * 1000000000, Pool_Wait = True,
        Pool_Dial = \<lparr>dial_network = ''tcp'', dial_address = Connection config,
          dial_connect_timeout = word_of_int (Timeout config) * 1000000000\<rparr>\<rparr>
   \<and> client (snd (invoke e c \<lparr>client = r, trace = tr'\<rparr>)) = r
   \<and> client (snd (invoke_all e cs \<lparr>client = r, trace = tr'\<rparr>)) = r"
  by (auto simp add: ConnectRedis_result invoke_client invoke_all_client split: option.splits)

theorem client_fields_never_change_witness:
  "fst (fst (ConnectRedis plain_env local_config [])) = Some local_client
   \<and> connection local_client = ''localhost:6379''
   \<and> timeout local_client = 5000000000
   \<and> client (snd (invoke plain_env (CSet ''k'' (VString ''v''))
        \<lparr>client = local_client, trace = []\<rparr>)) = local_client
   \<and> client (snd (invoke_all plain_env [CSet ''k'' (VString ''v''), CPing, CExists ''k'']
        \<lparr>client = local_client, trace = []\<rparr>)) = local_client"
proof -
  have c: "fst (fst (ConnectRedis plain_env local_config [])) = Some local_client"
    by (simp add: ConnectRedis_def DoWithTimeout_def plain_env_def plain_Do_def
        local_config_def local_client_def Let_def)
  show ?thesis
    using c client_fields_never_change [OF c, of "CSet ''k'' (VString ''v'')" "[]"
        "[CSet ''k'' (VString ''v''), CPing, CExists ''k'']"]
    by (simp add: local_config_def)
qed

section \<open>The generic command and the pool's limit\<close>






end
